theory Spec2Isabelle
  imports Complex_Main "HOL-Library.Multiset" "HOL-Library.Sublist"
    "HOL-Library.Char_ord" "HOL-Library.List_Lexorder"
begin

section \<open>The listings table\<close>

text \<open>
  The program is one Streamlit script, \<^verbatim>\<open>streamlit_app.py\<close>. It reads
  \<^verbatim>\<open>listings.csv\<close> into a pandas frame \<^verbatim>\<open>df\<close>, cleans it, and narrows it
  in three sidebar steps. A frame is modelled as the list of its rows, in frame order.
  A cell that pandas holds as NaN (an empty CSV field) is \<open>None\<close>; a float cell is a
  \<open>real\<close> (finite values, binary rounding not represented).

  Exceptions of the script are values of \<open>py_error\<close>; a function that can raise returns
  \<open>py_error + 'a\<close>, with \<open>Inl\<close> for the exception.
\<close>

datatype py_error = ValueError | IndexError

text \<open>
  \<^verbatim>\<open>host_name\<close> and \<^verbatim>\<open>host_acceptance_rate\<close> are read only through
  \<^verbatim>\<open>Series.get\<close>, which tolerates a frame without the column. \<open>NoColumn\<close> is a frame
  that has no such column, \<open>Cell None\<close> a NaN cell, \<open>Cell (Some s)\<close> a value.
\<close>

datatype 'a lookup = NoColumn | Cell "'a option"

text \<open>A row of the frame as \<^verbatim>\<open>pd.read_csv\<close> returns it (line 6).\<close>

record raw_listing =
  raw_id :: "string option"
  raw_price :: "string option"
  raw_room_type :: "string option"
  raw_host_neighbourhood :: "string option"
  raw_neighbourhood_cleansed :: "string option"
  raw_host_is_superhost :: "string option"
  raw_review_scores_rating :: "real option"
  raw_review_scores_accuracy :: "real option"
  raw_review_scores_cleanliness :: "real option"
  raw_review_scores_checkin :: "real option"
  raw_review_scores_communication :: "real option"
  raw_review_scores_location :: "real option"
  raw_picture_url :: "string option"
  raw_host_url :: "string option"
  raw_host_response_rate :: "string option"
  raw_host_name :: "string lookup"
  raw_host_acceptance_rate :: "string lookup"

text \<open>
  A row of \<^verbatim>\<open>df\<close> after lines 9 to 26: \<^verbatim>\<open>price\<close> is a float, \<^verbatim>\<open>id\<close> a string or
  NaN (field \<open>listing_id\<close>), \<^verbatim>\<open>host_is_superhost\<close> is Yes, No or NaN, and the column
  \<^verbatim>\<open>avg_review_score\<close> has been added.
\<close>

record listing =
  listing_id :: "string option"
  price :: "real option"
  room_type :: "string option"
  host_neighbourhood :: "string option"
  neighbourhood_cleansed :: "string option"
  host_is_superhost :: "string option"
  review_scores_rating :: "real option"
  review_scores_accuracy :: "real option"
  review_scores_cleanliness :: "real option"
  review_scores_checkin :: "real option"
  review_scores_communication :: "real option"
  review_scores_location :: "real option"
  avg_review_score :: "real option"
  picture_url :: "string option"
  host_url :: "string option"
  host_response_rate :: "string option"
  host_name :: "string lookup"
  host_acceptance_rate :: "string lookup"

section \<open>Load and clean (lines 9 to 26)\<close>

text \<open>
  Line 9, \<^verbatim>\<open>df['price'].replace('[\$,]', '', regex=True).astype(float)\<close>. The regular
  expression matches one dollar sign or one comma; every match is replaced by the empty
  string. A NaN cell is left as it is.
\<close>

definition strip_currency :: "string \<Rightarrow> string" where
  "strip_currency s = filter (\<lambda>c. c \<noteq> CHR ''$'' \<and> c \<noteq> CHR '','') s"

text \<open>
  \<^verbatim>\<open>astype(float)\<close> converts each string with Python's \<^verbatim>\<open>float\<close>, which is not code
  of this repository: it is the parameter \<open>to_float\<close>. \<open>to_float s = None\<close> means that
  \<^verbatim>\<open>float(s)\<close> raises ValueError, \<open>Some None\<close> that it returns NaN and
  \<open>Some (Some v)\<close> that it returns \<open>v\<close>. The exception is not caught anywhere in the
  script.
\<close>

definition clean_price :: "(string \<Rightarrow> real option option) \<Rightarrow> string option \<Rightarrow> py_error + real option" where
  "clean_price to_float cell =
     (case cell of
        None \<Rightarrow> Inr None
      | Some s \<Rightarrow> (case to_float (strip_currency s) of
                    None \<Rightarrow> Inl ValueError
                  | Some v \<Rightarrow> Inr v))"

text \<open>
  Line 10, \<^verbatim>\<open>df['id'].astype(str)\<close>. A cell with a value becomes its string. What
  becomes of a NaN cell depends on the pandas that runs the script, and the repository
  names no version: before pandas 3 the cell becomes the string nan, from pandas 3 on it
  stays NaN. \<open>nan_to_str\<close> is True for the former and False for the latter. No
  \<^verbatim>\<open>dropna\<close> of the script names the column \<^verbatim>\<open>id\<close>.
\<close>

definition astype_str :: "bool \<Rightarrow> string option \<Rightarrow> string option" where
  "astype_str nan_to_str cell =
     (case cell of
        None \<Rightarrow> (if nan_to_str then Some ''nan'' else None)
      | Some s \<Rightarrow> Some s)"

text \<open>
  Line 11, \<^verbatim>\<open>df['host_is_superhost'].map({'t': 'Yes', 'f': 'No'})\<close>: a value that is
  not a key of the dictionary becomes NaN.
\<close>

definition map_superhost :: "string option \<Rightarrow> string option" where
  "map_superhost cell =
     (if cell = Some ''t'' then Some ''Yes''
      else if cell = Some ''f'' then Some ''No''
      else None)"

text \<open>
  Line 22, \<^verbatim>\<open>df[review_columns].mean(axis=1)\<close>: the mean of the cells that are not NaN,
  and NaN when there is none.
\<close>

primrec present :: "'a option list \<Rightarrow> 'a list" where
  "present [] = []"
| "present (c # cs) = (case c of None \<Rightarrow> present cs | Some v \<Rightarrow> v # present cs)"

definition nanmean :: "real option list \<Rightarrow> real option" where
  "nanmean cells =
     (let vs = present cells
      in if vs = [] then None else Some (sum_list vs / real (length vs)))"

definition review_columns :: "listing \<Rightarrow> real option list" where
  "review_columns r =
     [review_scores_rating r, review_scores_accuracy r, review_scores_cleanliness r,
      review_scores_checkin r, review_scores_communication r, review_scores_location r]"

text \<open>Lines 9 to 11 on one row, given the converted price.\<close>

definition preprocess_row :: "bool \<Rightarrow> raw_listing \<Rightarrow> real option \<Rightarrow> listing" where
  "preprocess_row nan_to_str r p =
     \<lparr> listing_id = astype_str nan_to_str (raw_id r),
       price = p,
       room_type = raw_room_type r,
       host_neighbourhood = raw_host_neighbourhood r,
       neighbourhood_cleansed = raw_neighbourhood_cleansed r,
       host_is_superhost = map_superhost (raw_host_is_superhost r),
       review_scores_rating = raw_review_scores_rating r,
       review_scores_accuracy = raw_review_scores_accuracy r,
       review_scores_cleanliness = raw_review_scores_cleanliness r,
       review_scores_checkin = raw_review_scores_checkin r,
       review_scores_communication = raw_review_scores_communication r,
       review_scores_location = raw_review_scores_location r,
       avg_review_score = None,
       picture_url = raw_picture_url r,
       host_url = raw_host_url r,
       host_response_rate = raw_host_response_rate r,
       host_name = raw_host_name r,
       host_acceptance_rate = raw_host_acceptance_rate r \<rparr>"

text \<open>
  Lines 9 to 11 on the whole frame. The conversion of line 9 runs over the whole column
  before any row is dropped, so one string that does not convert ends the script.
\<close>

fun preprocess ::
  "bool \<Rightarrow> (string \<Rightarrow> real option option) \<Rightarrow> raw_listing list \<Rightarrow> py_error + listing list" where
  "preprocess nan_to_str to_float [] = Inr []"
| "preprocess nan_to_str to_float (r # rs) =
     (case clean_price to_float (raw_price r) of
        Inl e \<Rightarrow> Inl e
      | Inr p \<Rightarrow> (case preprocess nan_to_str to_float rs of
                    Inl e \<Rightarrow> Inl e
                  | Inr ls \<Rightarrow> Inr (preprocess_row nan_to_str r p # ls)))"

text \<open>
  The three \<^verbatim>\<open>dropna(subset=...)\<close> calls of lines 14, 21 and 26: a row stays when
  none of the listed cells is NaN.
\<close>

definition essential_present :: "listing \<Rightarrow> bool" where
  "essential_present r \<longleftrightarrow>
     price r \<noteq> None \<and> room_type r \<noteq> None \<and> host_neighbourhood r \<noteq> None \<and>
     host_is_superhost r \<noteq> None"

definition reviews_present :: "listing \<Rightarrow> bool" where
  "reviews_present r \<longleftrightarrow>
     review_scores_rating r \<noteq> None \<and> review_scores_accuracy r \<noteq> None \<and>
     review_scores_cleanliness r \<noteq> None \<and> review_scores_checkin r \<noteq> None \<and>
     review_scores_communication r \<noteq> None \<and> review_scores_location r \<noteq> None"

definition tooltip_present :: "listing \<Rightarrow> bool" where
  "tooltip_present r \<longleftrightarrow>
     picture_url r \<noteq> None \<and> host_url r \<noteq> None \<and> host_response_rate r \<noteq> None"

definition add_avg_review_score :: "listing \<Rightarrow> listing" where
  "add_avg_review_score r = r\<lparr>avg_review_score := nanmean (review_columns r)\<rparr>"

text \<open>Lines 14 to 26 on the preprocessed frame.\<close>

definition drop_incomplete :: "listing list \<Rightarrow> listing list" where
  "drop_incomplete ls =
     filter tooltip_present
       (map add_avg_review_score
          (filter reviews_present (filter essential_present ls)))"

text \<open>The frame \<^verbatim>\<open>df\<close> that the rest of the script works on.\<close>

definition load_df ::
  "bool \<Rightarrow> (string \<Rightarrow> real option option) \<Rightarrow> raw_listing list \<Rightarrow> py_error + listing list" where
  "load_df nan_to_str to_float raw =
     (case preprocess nan_to_str to_float raw of
        Inl e \<Rightarrow> Inl e
      | Inr ls \<Rightarrow> Inr (drop_incomplete ls))"

subsection \<open>A conversion for running the model\<close>

text \<open>
  The theorems hold for every conversion \<open>to_float\<close>. To run the model on concrete
  rows, \<open>decimal_float\<close> converts the plain decimal literals (an optional sign, digits,
  an optional point and fraction digits) and rejects every other string; it is used only
  on strings on which Python's \<^verbatim>\<open>float\<close> does the same.
\<close>

definition digit_val :: "char \<Rightarrow> nat option" where
  "digit_val c =
     (let n = of_char c :: nat in if 48 \<le> n \<and> n \<le> 57 then Some (n - 48) else None)"

fun digits_val :: "nat \<Rightarrow> string \<Rightarrow> nat option" where
  "digits_val acc [] = Some acc"
| "digits_val acc (c # cs) =
     (case digit_val c of None \<Rightarrow> None | Some d \<Rightarrow> digits_val (10 * acc + d) cs)"

definition unsigned_decimal :: "string \<Rightarrow> real option" where
  "unsigned_decimal s =
     (let ip = takeWhile (\<lambda>c. c \<noteq> CHR ''.'') s;
          fp = drop 1 (dropWhile (\<lambda>c. c \<noteq> CHR ''.'') s)
      in if ip = [] \<and> fp = [] then None
         else (case (digits_val 0 ip, digits_val 0 fp) of
                 (Some i, Some f) \<Rightarrow> Some (real i + real f / 10 ^ length fp)
               | _ \<Rightarrow> None))"

definition decimal_float :: "string \<Rightarrow> real option option" where
  "decimal_float s =
     (case s of
        [] \<Rightarrow> None
      | c # cs \<Rightarrow>
          if c = CHR ''-'' then map_option (\<lambda>v. Some (- v)) (unsigned_decimal cs)
          else if c = CHR ''+'' then map_option Some (unsigned_decimal cs)
          else map_option Some (unsigned_decimal s))"

section \<open>Step 1: price range and superhost (lines 33 to 44)\<close>

text \<open>Python's \<^verbatim>\<open>int\<close> on a float truncates towards zero.\<close>

definition py_int :: "real \<Rightarrow> int" where
  "py_int x = (if 0 \<le> x then \<lfloor>x\<rfloor> else \<lceil>x\<rceil>)"

text \<open>
  Line 33, \<^verbatim>\<open>int(df['price'].min()), int(df['price'].max())\<close>: the slider's bounds.
  \<^verbatim>\<open>min\<close> and \<^verbatim>\<open>max\<close> skip NaN cells and are NaN on a column with no value, on which
  \<^verbatim>\<open>int\<close> raises ValueError. The slider's initial value is the pair of both bounds
  (line 35), the widest range it offers.
\<close>

definition price_min_max :: "listing list \<Rightarrow> py_error + int \<times> int" where
  "price_min_max df =
     (let ps = present (map price df)
      in if ps = [] then Inl ValueError
         else Inr (py_int (Min (set ps)), py_int (Max (set ps))))"

text \<open>
  Lines 40 to 44. A comparison of pandas with a NaN cell is False. The bounds are the
  integers the slider returns, \<open>selected_superhost\<close> the option picked in the select box.
\<close>

definition price_ge :: "real option \<Rightarrow> int \<Rightarrow> bool" where
  "price_ge cell b = (case cell of None \<Rightarrow> False | Some p \<Rightarrow> real_of_int b \<le> p)"

definition price_le :: "real option \<Rightarrow> int \<Rightarrow> bool" where
  "price_le cell b = (case cell of None \<Rightarrow> False | Some p \<Rightarrow> p \<le> real_of_int b)"

definition base_df :: "listing list \<Rightarrow> int \<times> int \<Rightarrow> string \<Rightarrow> listing list" where
  "base_df df selected_price selected_superhost =
     filter (\<lambda>r. price_ge (price r) (fst selected_price) \<and>
                 price_le (price r) (snd selected_price) \<and>
                 host_is_superhost r = Some selected_superhost) df"

section \<open>Average price by neighbourhood (lines 74 to 78)\<close>

text \<open>
  \<^verbatim>\<open>groupby('neighbourhood_cleansed', as_index=False)['price'].mean()\<close>: one row per
  distinct key that is not NaN, the keys in ascending order, each with the mean of the
  group's prices (NaN cells skipped).
\<close>

definition group_keys :: "listing list \<Rightarrow> string list" where
  "group_keys view = sort (remdups (present (map neighbourhood_cleansed view)))"

definition group_mean :: "listing list \<Rightarrow> string \<Rightarrow> real option" where
  "group_mean view k =
     nanmean (map price (filter (\<lambda>r. neighbourhood_cleansed r = Some k) view))"

definition groupby_mean :: "listing list \<Rightarrow> (string \<times> real option) list" where
  "groupby_mean view = map (\<lambda>k. (k, group_mean view k)) (group_keys view)"

text \<open>
  \<^verbatim>\<open>.sort_values('price', ascending=False)\<close> has one sort key and the default
  \<^verbatim>\<open>kind='quicksort'\<close>. pandas sorts the rows whose key is not NaN through numpy's
  \<^verbatim>\<open>argsort\<close>: for a descending sort it reverses them, sorts ascending, reverses the
  result, and appends the NaN rows in frame order. numpy's quicksort is not a stable
  sort and is not code of this repository: it is the parameter \<open>argsort\<close>, of which
  \<open>argsort_spec\<close> states what numpy promises, that the result is a permutation of the
  positions that puts the keys in ascending order.
\<close>

definition argsort_spec :: "(real list \<Rightarrow> nat list) \<Rightarrow> bool" where
  "argsort_spec argsort \<longleftrightarrow>
     (\<forall>keys. mset (argsort keys) = mset [0..<length keys] \<and>
             sorted (map (\<lambda>i. keys ! i) (argsort keys)))"

primrec non_nan_rows :: "('k \<times> real option) list \<Rightarrow> ('k \<times> real) list" where
  "non_nan_rows [] = []"
| "non_nan_rows (r # rs) =
     (case snd r of None \<Rightarrow> non_nan_rows rs | Some v \<Rightarrow> (fst r, v) # non_nan_rows rs)"

definition nan_rows :: "('k \<times> real option) list \<Rightarrow> ('k \<times> real option) list" where
  "nan_rows rows = filter (\<lambda>r. snd r = None) rows"

definition sort_values_desc ::
  "(real list \<Rightarrow> nat list) \<Rightarrow> ('k \<times> real option) list \<Rightarrow> ('k \<times> real option) list" where
  "sort_values_desc argsort rows =
     (let non_nans = rev (non_nan_rows rows);
          indexer = rev (argsort (map snd non_nans))
      in map (\<lambda>i. (fst (non_nans ! i), Some (snd (non_nans ! i)))) indexer @ nan_rows rows)"

definition neighborhood_avg ::
  "(real list \<Rightarrow> nat list) \<Rightarrow> listing list \<Rightarrow> (string \<times> real option) list" where
  "neighborhood_avg argsort view = sort_values_desc argsort (groupby_mean view)"

text \<open>
  A sort that meets \<open>argsort_spec\<close>: \<open>stable_argsort\<close> keeps positions with equal
  keys in ascending order, as \<^verbatim>\<open>kind='stable'\<close> does.
\<close>

definition stable_argsort :: "real list \<Rightarrow> nat list" where
  "stable_argsort keys = sort_key (\<lambda>i. keys ! i) [0..<length keys]"

text \<open>
  numpy's \<^verbatim>\<open>argsort\<close> with \<^verbatim>\<open>kind='quicksort'\<close> on a float array, in its portable
  implementation (\<^verbatim>\<open>aquicksort\<close> in \<^verbatim>\<open>npysort/quicksort.cpp\<close>). \<open>v\<close> is the array of
  keys and \<open>a\<close> the array of positions that is permuted. A partition of more than 17
  positions is split around the median of its first, middle and last key; a shorter
  one is sorted by insertion; a partition that is taken from the stack after more than
  twice \<open>\<lfloor>log\<^sub>2 n\<rfloor>\<close> splits is sorted by heapsort. On processors for which numpy
  was built with vector instructions it runs a sorting network instead, which is not
  represented here; numpy documents the sort as not stable.

  \<^verbatim>\<open>INTP_SWAP\<close>, and the two inner scans of the partition loop,
  \<^verbatim>\<open>do ++pi; while (v[*pi] < vp)\<close> and \<^verbatim>\<open>do --pj; while (vp < v[*pj])\<close>: the first
  position from \<open>i\<close> upwards whose key is not below the pivot, and the first from \<open>j\<close>
  downwards whose key is not above it.
\<close>

definition intp_swap :: "nat \<Rightarrow> nat \<Rightarrow> nat list \<Rightarrow> nat list" where
  "intp_swap i j a = a[i := a ! j, j := a ! i]"

definition scan_up :: "real list \<Rightarrow> real \<Rightarrow> nat list \<Rightarrow> nat \<Rightarrow> nat" where
  "scan_up v vp a i = i + length (takeWhile (\<lambda>x. v ! x < vp) (drop i a))"

definition scan_down :: "real list \<Rightarrow> real \<Rightarrow> nat list \<Rightarrow> nat \<Rightarrow> nat" where
  "scan_down v vp a j = j - length (takeWhile (\<lambda>x. vp < v ! x) (rev (take (Suc j) a)))"

text \<open>The partition loop, from \<^verbatim>\<open>pi\<close> and \<^verbatim>\<open>pj\<close> (here \<open>i\<close> and \<open>j\<close>) to the break.\<close>

function partition_loop :: "real list \<Rightarrow> real \<Rightarrow> nat list \<Rightarrow> nat \<Rightarrow> nat \<Rightarrow> nat list \<times> nat" where
  "partition_loop v vp a i j =
     (let i' = scan_up v vp a (Suc i);
          j' = scan_down v vp a (j - 1)
      in if j' \<le> i' then (a, i')
         else partition_loop v vp (intp_swap i' j' a) i' j')"
  by pat_completeness auto
termination
  by (relation "measure (\<lambda>(v, vp, a, i, j). j - i)")
     (auto simp: scan_up_def scan_down_def)

text \<open>
  One split of a partition \<open>a0\<close> (\<^verbatim>\<open>pl\<close> is its first position, \<^verbatim>\<open>pr\<close> its last):
  median of three, the pivot parked at \<^verbatim>\<open>pr - 1\<close>, the loop, the pivot put at its
  place. The result is the permuted partition and the pivot's position.
\<close>

definition partition_step :: "real list \<Rightarrow> nat list \<Rightarrow> nat list \<times> nat" where
  "partition_step v a0 =
     (let pl = 0;
          pr = length a0 - 1;
          pm = pl + (pr - pl) div 2;
          a1 = (if v ! (a0 ! pm) < v ! (a0 ! pl) then intp_swap pm pl a0 else a0);
          a2 = (if v ! (a1 ! pr) < v ! (a1 ! pm) then intp_swap pr pm a1 else a1);
          a3 = (if v ! (a2 ! pm) < v ! (a2 ! pl) then intp_swap pm pl a2 else a2);
          vp = v ! (a3 ! pm);
          a4 = intp_swap pm (pr - 1) a3;
          (a5, i) = partition_loop v vp a4 pl (pr - 1)
      in (intp_swap i (pr - 1) a5, i))"

text \<open>
  The insertion sort of a short partition: each position moves left past the
  positions whose key is greater. \<open>insert_sorted\<close> holds the sorted prefix reversed.
\<close>

fun insert_sorted :: "real list \<Rightarrow> nat \<Rightarrow> nat list \<Rightarrow> nat list" where
  "insert_sorted v vi [] = [vi]"
| "insert_sorted v vi (x # xs) =
     (if v ! vi < v ! x then x # insert_sorted v vi xs else vi # x # xs)"

definition insertion_sort :: "real list \<Rightarrow> nat list \<Rightarrow> nat list" where
  "insertion_sort v a = rev (foldl (\<lambda>done vi. insert_sorted v vi done) [] a)"

text \<open>
  \<^verbatim>\<open>aheapsort\<close>, with its one-based indexing (\<^verbatim>\<open>a = tosort - 1\<close>): \<open>sift\<close> is the inner
  loop that moves \<open>tmp\<close> down from \<open>i\<close>, \<open>heap_build\<close> the first loop and
  \<open>heap_extract\<close> the second.
\<close>

function sift :: "real list \<Rightarrow> nat \<Rightarrow> nat \<Rightarrow> nat list \<Rightarrow> nat \<Rightarrow> nat \<Rightarrow> nat list" where
  "sift v n tmp a i j =
     (if 0 < j \<and> j \<le> n then
        (let j' = (if j < n \<and> v ! (a ! (j - 1)) < v ! (a ! j) then j + 1 else j)
         in if v ! tmp < v ! (a ! (j' - 1))
            then sift v n tmp (a[i - 1 := a ! (j' - 1)]) j' (j' + j')
            else a[i - 1 := tmp])
      else a[i - 1 := tmp])"
  by pat_completeness auto
termination
  by (relation "measure (\<lambda>(v, n, tmp, a, i, j). Suc n - j)") auto

definition heap_build :: "real list \<Rightarrow> nat list \<Rightarrow> nat list" where
  "heap_build v a =
     foldl (\<lambda>a l. sift v (length a) (a ! (l - 1)) a l (l + l)) a (rev [1..<Suc (length a div 2)])"

fun heap_extract :: "real list \<Rightarrow> nat list \<Rightarrow> nat \<Rightarrow> nat list" where
  "heap_extract v a 0 = a"
| "heap_extract v a (Suc m) =
     (if 0 < m
      then heap_extract v (sift v m (a ! m) (a[m := a ! 0]) 1 2) m
      else a)"

definition aheapsort :: "real list \<Rightarrow> nat list \<Rightarrow> nat list" where
  "aheapsort v a = heap_extract v (heap_build v a) (length a)"

text \<open>
  The whole sort. \<open>popped\<close> says that the partition was taken from the stack (or is
  the whole array), where the depth is tested; after a split the smaller part is
  continued with and the larger one is pushed. The test on the pivot's position and on
  the length holds after every split and serves the termination proof only.
\<close>

fun npy_get_msb :: "nat \<Rightarrow> nat" where
  "npy_get_msb n = (if n < 2 then 0 else Suc (npy_get_msb (n div 2)))"

function aquicksort_from :: "bool \<Rightarrow> int \<Rightarrow> real list \<Rightarrow> nat list \<Rightarrow> nat list" where
  "aquicksort_from popped cdepth v a =
     (if popped \<and> cdepth < 0 then aheapsort v a
      else if 17 < length a then
        (case partition_step v a of
           (a', i) \<Rightarrow>
             if i < length a \<and> length a' = length a then
               (if i < length a - 1 - i
                then aquicksort_from False (cdepth - 1) v (take i a') @ [a' ! i] @
                     aquicksort_from True (cdepth - 1) v (drop (Suc i) a')
                else aquicksort_from True (cdepth - 1) v (take i a') @ [a' ! i] @
                     aquicksort_from False (cdepth - 1) v (drop (Suc i) a'))
             else a')
      else insertion_sort v a)"
  by pat_completeness auto
termination
  by (relation "measure (\<lambda>(popped, cdepth, v, a). length a)") auto

definition aquicksort :: "real list \<Rightarrow> nat list" where
  "aquicksort v = aquicksort_from True (2 * int (npy_get_msb (length v))) v [0..<length v]"

text \<open>
  The order the rows are expected in: mean price descending (a NaN mean last), and rows
  with equal means by name ascending.
\<close>

definition mean_ge :: "real option \<Rightarrow> real option \<Rightarrow> bool" where
  "mean_ge a b =
     (case b of None \<Rightarrow> True | Some y \<Rightarrow> (case a of None \<Rightarrow> False | Some x \<Rightarrow> y \<le> x))"

definition price_desc_name_asc :: "(string \<times> real option) \<Rightarrow> (string \<times> real option) \<Rightarrow> bool" where
  "price_desc_name_asc a b \<longleftrightarrow> mean_ge (snd a) (snd b) \<and> (snd a \<noteq> snd b \<or> fst a \<le> fst b)"

section \<open>Step 2: room type and neighbourhood (lines 101 to 104)\<close>

definition filtered_df :: "listing list \<Rightarrow> string \<Rightarrow> string \<Rightarrow> listing list" where
  "filtered_df base selected_room selected_neighborhood =
     filter (\<lambda>r. room_type r = Some selected_room \<and>
                 neighbourhood_cleansed r = Some selected_neighborhood) base"

section \<open>Step 3: one listing (lines 109 to 170)\<close>

text \<open>
  \<^verbatim>\<open>Series.unique()\<close> keeps the first occurrence of each value, in frame order
  (\<open>remdups\<close> keeps the last one).
\<close>

definition unique :: "'a list \<Rightarrow> 'a list" where
  "unique xs = rev (remdups (rev xs))"

text \<open>Line 134: the options of the select box. A NaN id is one of them.\<close>

definition available_ids :: "listing list \<Rightarrow> string option list" where
  "available_ids view = unique (map listing_id view)"

text \<open>
  Line 137, \<^verbatim>\<open>filtered_df[filtered_df['id'] == selected_id].iloc[0]\<close>: the first row
  with that id; \<^verbatim>\<open>.iloc[0]\<close> on a frame without rows raises IndexError. The comparison
  of pandas is False on a NaN cell and against a NaN.
\<close>

definition id_eq :: "string option \<Rightarrow> string option \<Rightarrow> bool" where
  "id_eq cell selected_id = (case cell of None \<Rightarrow> False | Some s \<Rightarrow> selected_id = Some s)"

definition selected_row :: "listing list \<Rightarrow> string option \<Rightarrow> py_error + listing" where
  "selected_row view selected_id =
     (case filter (\<lambda>r. id_eq (listing_id r) selected_id) view of
        [] \<Rightarrow> Inl IndexError
      | r # _ \<Rightarrow> Inr r)"

text \<open>Lines 140 to 150: the frame of the review chart, as its rows (Category, Score).\<close>

definition review_scores :: "listing \<Rightarrow> (string \<times> real option) list" where
  "review_scores row =
     zip [''Rating'', ''Accuracy'', ''Cleanliness'', ''Check-in'', ''Communication'', ''Location'']
         [review_scores_rating row,
          review_scores_accuracy row,
          review_scores_cleanliness row,
          review_scores_checkin row,
          review_scores_communication row,
          review_scores_location row]"

text \<open>
  Lines 165 to 168. \<^verbatim>\<open>selected_row.get(field, 'Not Available')\<close> returns the default
  when the row has no such column, and the cell otherwise, NaN included; the f-string
  prints a NaN as nan. \<^verbatim>\<open>host_response_rate\<close> is a column of every frame that passed
  line 26.
\<close>

definition series_get :: "string lookup \<Rightarrow> string \<Rightarrow> string" where
  "series_get cell default_value =
     (case cell of
        NoColumn \<Rightarrow> default_value
      | Cell None \<Rightarrow> ''nan''
      | Cell (Some s) \<Rightarrow> s)"

text \<open>\<^verbatim>\<open>field.replace('_', ' ').title()\<close>, on ASCII letters.\<close>

definition replace_underscore :: "string \<Rightarrow> string" where
  "replace_underscore s = map (\<lambda>c. if c = CHR ''_'' then CHR '' '' else c) s"

definition is_alpha :: "char \<Rightarrow> bool" where
  "is_alpha c =
     (let n = of_char c :: nat in (65 \<le> n \<and> n \<le> 90) \<or> (97 \<le> n \<and> n \<le> 122))"

definition upper :: "char \<Rightarrow> char" where
  "upper c = (let n = of_char c :: nat in if 97 \<le> n \<and> n \<le> 122 then char_of (n - 32) else c)"

definition lower :: "char \<Rightarrow> char" where
  "lower c = (let n = of_char c :: nat in if 65 \<le> n \<and> n \<le> 90 then char_of (n + 32) else c)"

fun title_from :: "bool \<Rightarrow> string \<Rightarrow> string" where
  "title_from in_word [] = []"
| "title_from in_word (c # cs) =
     (if in_word then lower c else upper c) # title_from (is_alpha c) cs"

definition title :: "string \<Rightarrow> string" where
  "title s = title_from False s"

definition host_line :: "string \<Rightarrow> string lookup \<Rightarrow> string" where
  "host_line field cell =
     ''**'' @ title (replace_underscore field) @ '':** '' @ series_get cell ''Not Available''"

definition host_info :: "listing \<Rightarrow> string list" where
  "host_info row =
     [host_line ''host_name'' (host_name row),
      host_line ''host_response_rate'' (Cell (host_response_rate row)),
      host_line ''host_acceptance_rate'' (host_acceptance_rate row)]"

text \<open>
  Lines 109 to 170 as a whole. The step runs under \<^verbatim>\<open>if not filtered_df.empty\<close>; the
  \<^verbatim>\<open>else\<close> branch writes a warning. \<open>selected_id\<close> is what the select box over
  \<open>available_ids\<close> returned.
\<close>

datatype step3_output =
  Warning string
| Shown listing "(string \<times> real option) list" "string list"

definition step3 :: "listing list \<Rightarrow> string option \<Rightarrow> py_error + step3_output" where
  "step3 view selected_id =
     (if view = [] then Inr (Warning ''No listings match your selected room type and neighborhood.'')
      else (case selected_row view selected_id of
              Inl e \<Rightarrow> Inl e
            | Inr row \<Rightarrow> Inr (Shown row (review_scores row) (host_info row))))"

text \<open>
  What the step can be run with. The select box of line 135 exists only under the guard
  of line 109 and returns one of its options, the ids of the view; on an empty view no
  select box is made and no id is read.
\<close>

definition selectable :: "listing list \<Rightarrow> string option \<Rightarrow> bool" where
  "selectable view selected_id \<longleftrightarrow> view = [] \<or> selected_id \<in> set (available_ids view)"

section \<open>Rows for running the model\<close>

definition example_raw :: raw_listing where
  "example_raw =
     \<lparr> raw_id = Some ''12345'',
       raw_price = Some ''$1,234.50'',
       raw_room_type = Some ''Entire home/apt'',
       raw_host_neighbourhood = Some ''Mission District'',
       raw_neighbourhood_cleansed = Some ''Mission'',
       raw_host_is_superhost = Some ''t'',
       raw_review_scores_rating = Some 4,
       raw_review_scores_accuracy = Some 5,
       raw_review_scores_cleanliness = Some 3,
       raw_review_scores_checkin = Some 5,
       raw_review_scores_communication = Some 4,
       raw_review_scores_location = Some 5,
       raw_picture_url = Some ''https://a0.muscache.com/pictures/1.jpg'',
       raw_host_url = Some ''https://www.airbnb.com/users/show/1'',
       raw_host_response_rate = Some ''100%'',
       raw_host_name = Cell (Some ''Ana''),
       raw_host_acceptance_rate = Cell (Some ''95%'') \<rparr>"

definition example_row :: listing where
  "example_row =
     \<lparr> listing_id = Some ''12345'',
       price = Some 1234.5,
       room_type = Some ''Entire home/apt'',
       host_neighbourhood = Some ''Mission District'',
       neighbourhood_cleansed = Some ''Mission'',
       host_is_superhost = Some ''Yes'',
       review_scores_rating = Some 4,
       review_scores_accuracy = Some 5,
       review_scores_cleanliness = Some 3,
       review_scores_checkin = Some 5,
       review_scores_communication = Some 4,
       review_scores_location = Some 5,
       avg_review_score = Some (13 / 3),
       picture_url = Some ''https://a0.muscache.com/pictures/1.jpg'',
       host_url = Some ''https://www.airbnb.com/users/show/1'',
       host_response_rate = Some ''100%'',
       host_name = Cell (Some ''Ana''),
       host_acceptance_rate = Cell (Some ''95%'') \<rparr>"

definition example_view :: "listing list" where
  "example_view =
     [example_row,
      example_row\<lparr>listing_id := Some ''2'', price := Some 100, neighbourhood_cleansed := Some ''Castro''\<rparr>,
      example_row\<lparr>listing_id := Some ''3'', price := Some 200, neighbourhood_cleansed := Some ''Castro'',
                   room_type := Some ''Private room''\<rparr>]"

text \<open>
  Eighteen listings at 100 dollars, one in each of eighteen neighbourhoods, listed in
  ascending order of their names: eighteen groups with the same mean price.
\<close>

definition ties_view :: "listing list" where
  "ties_view =
     map (\<lambda>k. example_row\<lparr>listing_id := Some k, price := Some 100,
                            neighbourhood_cleansed := Some k\<rparr>)
       [''Bayview'', ''Bernal Heights'', ''Castro'', ''Chinatown'',
        ''Excelsior'', ''Glen Park'', ''Haight Ashbury'', ''Inner Richmond'',
        ''Inner Sunset'', ''Marina'', ''Mission'', ''Nob Hill'',
        ''Noe Valley'', ''North Beach'', ''Outer Mission'', ''Pacific Heights'',
        ''Potrero Hill'', ''Russian Hill'']"

text \<open>
  Two listings of one room type and neighbourhood, at 100 and 200 dollars, the first
  with an empty \<^verbatim>\<open>id\<close> field: the rows of the CSV file and the rows of \<^verbatim>\<open>df\<close>.
\<close>

definition missing_id_raw :: "raw_listing list" where
  "missing_id_raw =
     [example_raw\<lparr>raw_id := None, raw_price := Some ''$100.00''\<rparr>,
      example_raw\<lparr>raw_id := Some ''2'', raw_price := Some ''$200.00''\<rparr>]"

definition missing_id_view :: "listing list" where
  "missing_id_view =
     [example_row\<lparr>listing_id := None, price := Some 100\<rparr>,
      example_row\<lparr>listing_id := Some ''2'', price := Some 200\<rparr>]"

section \<open>Properties\<close>

subsection \<open>Load and clean\<close>

lemma set_present: "set (present cells) = {v. Some v \<in> set cells}"
  by (induction cells) (auto split: option.splits)

lemma preprocess_Inl_iff:
  "preprocess nan_to_str to_float raw = Inl e \<longleftrightarrow>
     e = ValueError \<and> (\<exists>r\<in>set raw. \<exists>s. raw_price r = Some s \<and> to_float (strip_currency s) = None)"
proof (induction raw)
  case Nil
  show ?case by simp
next
  case (Cons r rs)
  show ?case
  proof (cases "clean_price to_float (raw_price r)")
    case (Inl e')
    then have "e' = ValueError \<and> (\<exists>s. raw_price r = Some s \<and> to_float (strip_currency s) = None)"
      by (auto simp: clean_price_def split: option.splits)
    with Inl show ?thesis by auto
  next
    case (Inr p)
    then have "\<not> (\<exists>s. raw_price r = Some s \<and> to_float (strip_currency s) = None)"
      by (auto simp: clean_price_def split: option.splits)
    with Inr Cons.IH show ?thesis
      by (auto split: sum.splits)
  qed
qed

lemma preprocess_Inr_rows:
  "preprocess nan_to_str to_float raw = Inr ls \<Longrightarrow> l \<in> set ls \<Longrightarrow>
     \<exists>r\<in>set raw. \<exists>p. clean_price to_float (raw_price r) = Inr p \<and> l = preprocess_row nan_to_str r p"
proof (induction raw arbitrary: ls)
  case Nil
  then show ?case by simp
next
  case (Cons r rs)
  from Cons.prems(1) obtain p ls' where
    p: "clean_price to_float (raw_price r) = Inr p" and
    ls': "preprocess nan_to_str to_float rs = Inr ls'" and
    ls: "ls = preprocess_row nan_to_str r p # ls'"
    by (auto split: sum.splits)
  from Cons.prems(2) ls have "l = preprocess_row nan_to_str r p \<or> l \<in> set ls'" by simp
  then show ?case
  proof
    assume "l = preprocess_row nan_to_str r p"
    with p show ?thesis by auto
  next
    assume "l \<in> set ls'"
    from Cons.IH [OF ls' this] show ?thesis by auto
  qed
qed

lemma drop_incomplete_rows:
  assumes "l \<in> set (drop_incomplete ls)"
  shows "\<exists>l0\<in>set ls. l = add_avg_review_score l0 \<and> essential_present l0 \<and>
           reviews_present l0 \<and> tooltip_present l0"
  using assms by (auto simp: drop_incomplete_def tooltip_present_def add_avg_review_score_def)

lemma clean_price_Inr:
  "clean_price to_float cell = Inr (Some v) \<Longrightarrow>
     \<exists>s. cell = Some s \<and> to_float (strip_currency s) = Some (Some v)"
  by (auto simp: clean_price_def split: option.splits)

text \<open>
  What the three \<^verbatim>\<open>dropna\<close> calls establish: a row of \<^verbatim>\<open>df\<close> has a price, a room
  type, a \<^verbatim>\<open>host_neighbourhood\<close>, a superhost flag, the six review scores, the three
  tooltip columns, and the mean of the six scores as \<^verbatim>\<open>avg_review_score\<close>.
\<close>

lemma load_df_complete:
  assumes "load_df nan_to_str to_float raw = Inr df" and "l \<in> set df"
  shows "price l \<noteq> None \<and> room_type l \<noteq> None \<and> host_neighbourhood l \<noteq> None \<and>
         host_is_superhost l \<noteq> None \<and> reviews_present l \<and> tooltip_present l \<and>
         avg_review_score l = nanmean (review_columns l)"
proof -
  from assms obtain ls where "df = drop_incomplete ls"
    by (auto simp: load_df_def split: sum.splits)
  with assms(2) show ?thesis
    by (auto simp: drop_incomplete_def essential_present_def reviews_present_def
        tooltip_present_def add_avg_review_score_def review_columns_def)
qed

text \<open>
  Claim C2: after cleaning, every surviving record has a non-null price, room type,
  neighbourhood (the field that filtering and grouping use), superhost flag, six review
  scores, picture and host reference and host response rate. Line 14 drops on
  \<^verbatim>\<open>host_neighbourhood\<close>, while lines 75, 98 and 103 group and filter on
  \<^verbatim>\<open>neighbourhood_cleansed\<close>, which no \<^verbatim>\<open>dropna\<close> names: a row with a
  \<^verbatim>\<open>host_neighbourhood\<close> and a NaN \<^verbatim>\<open>neighbourhood_cleansed\<close> survives the cleaning.
\<close>

theorem load_df_keeps_missing_neighbourhood:
  "load_df nan_to_str decimal_float [example_raw\<lparr>raw_neighbourhood_cleansed := None\<rparr>]
     = Inr [example_row\<lparr>neighbourhood_cleansed := None\<rparr>]"
  by code_simp

text \<open>
  Claim C7, as the code has it: the price text loses every dollar sign and comma and is
  converted by \<^verbatim>\<open>float\<close>; the price of every surviving record is that value, whose
  sign is not checked; a record with no price is dropped; and the load as a whole raises
  ValueError exactly when the price text of some record does not convert. A price that
  does not parse is therefore fatal for the load, not an exclusion of one record.
\<close>

theorem load_df_price_conversion:
  "(load_df nan_to_str to_float raw = Inl ValueError \<longleftrightarrow>
      (\<exists>r\<in>set raw. \<exists>s. raw_price r = Some s \<and> to_float (strip_currency s) = None)) \<and>
   (\<forall>df. load_df nan_to_str to_float raw = Inr df \<longrightarrow>
      (\<forall>l\<in>set df. \<exists>r\<in>set raw. \<exists>s v.
         raw_price r = Some s \<and> to_float (strip_currency s) = Some (Some v) \<and>
         price l = Some v \<and> listing_id l = astype_str nan_to_str (raw_id r)))"
proof (intro conjI allI impI ballI)
  show "load_df nan_to_str to_float raw = Inl ValueError \<longleftrightarrow>
      (\<exists>r\<in>set raw. \<exists>s. raw_price r = Some s \<and> to_float (strip_currency s) = None)"
  proof -
    have "load_df nan_to_str to_float raw = Inl ValueError \<longleftrightarrow> preprocess nan_to_str to_float raw = Inl ValueError"
      by (cases "preprocess nan_to_str to_float raw") (simp_all add: load_df_def)
    then show ?thesis
      by (simp add: preprocess_Inl_iff)
  qed
next
  fix df l
  assume "load_df nan_to_str to_float raw = Inr df" and l: "l \<in> set df"
  then obtain ls where ls: "preprocess nan_to_str to_float raw = Inr ls" and df: "df = drop_incomplete ls"
    by (auto simp: load_df_def split: sum.splits)
  from l df obtain l0 where l0: "l0 \<in> set ls" "l = add_avg_review_score l0" "essential_present l0"
    using drop_incomplete_rows by blast
  from preprocess_Inr_rows [OF ls l0(1)] obtain r p where
    r: "r \<in> set raw" "clean_price to_float (raw_price r) = Inr p" "l0 = preprocess_row nan_to_str r p"
    by blast
  from l0(3) r(3) obtain v where v: "p = Some v"
    by (auto simp: essential_present_def preprocess_row_def)
  from clean_price_Inr r(2) v obtain s where
    s: "raw_price r = Some s" "to_float (strip_currency s) = Some (Some v)"
    by blast
  have "price l = Some v \<and> listing_id l = astype_str nan_to_str (raw_id r)"
    using l0(2) r(3) v by (simp add: add_avg_review_score_def preprocess_row_def)
  with r(1) s show "\<exists>r\<in>set raw. \<exists>s v.
         raw_price r = Some s \<and> to_float (strip_currency s) = Some (Some v) \<and>
         price l = Some v \<and> listing_id l = astype_str nan_to_str (raw_id r)"
    by blast
qed

theorem load_df_price_conversion_witness:
  "load_df False decimal_float [example_raw] = Inr [example_row] \<and>
   raw_price example_raw = Some ''$1,234.50'' \<and>
   decimal_float (strip_currency ''$1,234.50'') = Some (Some 1234.5) \<and>
   price example_row = Some 1234.5 \<and>
   listing_id example_row = astype_str False (raw_id example_raw)"
proof -
  have e: "load_df False decimal_float [example_raw] = Inr [example_row]"
    by code_simp
  have f: "decimal_float (strip_currency ''$1,234.50'') = Some (Some 1234.5)"
    by code_simp
  show ?thesis
    using load_df_price_conversion [of False decimal_float "[example_raw]"] e f
    by (simp add: example_raw_def example_row_def astype_str_def)
qed

text \<open>
  The claim as written fails twice: one price that does not parse stops the load of a
  frame whose other row is fine, and a negative price passes the cleaning.
\<close>

theorem load_df_price_counterexample:
  "load_df False decimal_float
     [example_raw, example_raw\<lparr>raw_id := Some ''2'', raw_price := Some ''$abc''\<rparr>]
     = Inl ValueError \<and>
   load_df True decimal_float
     [example_raw, example_raw\<lparr>raw_id := Some ''2'', raw_price := Some ''$abc''\<rparr>]
     = Inl ValueError \<and>
   load_df False decimal_float [example_raw\<lparr>raw_price := Some ''-$5.00''\<rparr>]
     = Inr [example_row\<lparr>price := Some (- 5)\<rparr>] \<and>
   load_df True decimal_float [example_raw\<lparr>raw_price := Some ''-$5.00''\<rparr>]
     = Inr [example_row\<lparr>price := Some (- 5)\<rparr>]"
  by code_simp

subsection \<open>Step 1\<close>

text \<open>
  Claim C1: a record is in \<^verbatim>\<open>base_df\<close> if and only if it is a record of \<^verbatim>\<open>df\<close>, its
  price \<open>p\<close> satisfies \<open>price_min \<le> p \<le> price_max\<close> (both bounds inclusive) and its
  superhost flag equals the selected value.
\<close>

theorem base_df_membership:
  "r \<in> set (base_df df (price_min, price_max) selected_superhost) \<longleftrightarrow>
     r \<in> set df \<and>
     (\<exists>p. price r = Some p \<and> real_of_int price_min \<le> p \<and> p \<le> real_of_int price_max) \<and>
     host_is_superhost r = Some selected_superhost"
  by (auto simp: base_df_def price_ge_def price_le_def split: option.splits)

theorem base_df_membership_witness:
  "base_df example_view (100, 1500) ''Yes'' = [example_row, example_view ! 1, example_view ! 2] \<and>
   base_df example_view (150, 1000) ''Yes'' = [example_view ! 2] \<and>
   example_row \<notin> set (base_df example_view (150, 1000) ''Yes'')"
proof -
  have e: "base_df example_view (150, 1000) ''Yes'' = [example_view ! 2]"
    "base_df example_view (100, 1500) ''Yes'' = [example_row, example_view ! 1, example_view ! 2]"
    by code_simp+
  have p: "price example_row = Some 1234.5" by (simp add: example_row_def)
  show ?thesis
    using base_df_membership [of example_row example_view 150 1000 "''Yes''"] e p by simp
qed

text \<open>
  Claim C6: with the slider at its full extent and superhost Yes, \<^verbatim>\<open>base_df\<close> is the
  set of all Yes records. The slider's upper bound is \<^verbatim>\<open>int(df['price'].max())\<close>,
  which truncates: of two Yes listings at 50.00 and 99.50 dollars the widest range is
  50 to 99, and the listing at 99.50 is not in \<^verbatim>\<open>base_df\<close>.
\<close>

theorem full_range_drops_fractional_price:
  "load_df nan_to_str decimal_float
     [example_raw\<lparr>raw_price := Some ''$50.00''\<rparr>,
      example_raw\<lparr>raw_id := Some ''2'', raw_price := Some ''$99.50''\<rparr>]
     = Inr [example_row\<lparr>price := Some 50\<rparr>,
            example_row\<lparr>listing_id := Some ''2'', price := Some 99.5\<rparr>] \<and>
   price_min_max [example_row\<lparr>price := Some 50\<rparr>,
                  example_row\<lparr>listing_id := Some ''2'', price := Some 99.5\<rparr>] = Inr (50, 99) \<and>
   base_df [example_row\<lparr>price := Some 50\<rparr>,
            example_row\<lparr>listing_id := Some ''2'', price := Some 99.5\<rparr>] (50, 99) ''Yes''
     = [example_row\<lparr>price := Some 50\<rparr>] \<and>
   filter (\<lambda>r. host_is_superhost r = Some ''Yes'')
     [example_row\<lparr>price := Some 50\<rparr>, example_row\<lparr>listing_id := Some ''2'', price := Some 99.5\<rparr>]
     = [example_row\<lparr>price := Some 50\<rparr>, example_row\<lparr>listing_id := Some ''2'', price := Some 99.5\<rparr>]"
  by code_simp

text \<open>
  The truncation is the only cause: on a frame whose prices are whole numbers the full
  range of the slider keeps every row with the selected superhost flag.
\<close>

lemma py_int_of_int: "py_int (real_of_int n) = n"
  by (simp add: py_int_def)

lemma price_min_max_bounds:
  assumes "price_min_max df = Inr (lo, hi)" and "r \<in> set df" and "price r = Some p"
  shows "\<exists>m M. lo = py_int m \<and> hi = py_int M \<and> m \<le> p \<and> p \<le> M \<and>
           Some m \<in> price ` set df \<and> Some M \<in> price ` set df"
proof -
  let ?S = "set (present (map price df))"
  from assms(2,3) have p: "p \<in> ?S"
    by (force simp: set_present)
  then have ne: "present (map price df) \<noteq> []" by auto
  with assms(1) have "lo = py_int (Min ?S)" "hi = py_int (Max ?S)"
    by (simp_all add: price_min_max_def Let_def)
  moreover have "Min ?S \<le> p" "p \<le> Max ?S"
    using p by simp_all
  moreover have "?S \<noteq> {}"
    using ne by simp
  then have "Min ?S \<in> ?S" "Max ?S \<in> ?S"
    by (rule Min_in [OF finite_set], rule Max_in [OF finite_set])
  then have "Some (Min ?S) \<in> price ` set df" "Some (Max ?S) \<in> price ` set df"
    by (simp_all add: set_present)
  ultimately show ?thesis by blast
qed

lemma base_df_full_range_whole_prices:
  assumes "price_min_max df = Inr full_range"
    and "\<forall>r\<in>set df. \<exists>n. price r = Some (real_of_int n)"
  shows "base_df df full_range selected_superhost =
           filter (\<lambda>r. host_is_superhost r = Some selected_superhost) df"
proof -
  obtain lo hi where fr: "full_range = (lo, hi)" by (cases full_range)
  have "price_ge (price r) lo \<and> price_le (price r) hi" if r: "r \<in> set df" for r
  proof -
    from assms(2) r obtain n where n: "price r = Some (real_of_int n)" by blast
    from price_min_max_bounds [OF assms(1) [unfolded fr] r n] obtain m M where
      mM: "lo = py_int m" "hi = py_int M" "m \<le> real_of_int n" "real_of_int n \<le> M"
        "Some m \<in> price ` set df" "Some M \<in> price ` set df"
      by blast
    from mM(5,6) assms(2) obtain a b where "m = real_of_int a" "M = real_of_int b"
      by force
    with mM(1-4) n show ?thesis
      by (simp add: price_ge_def price_le_def py_int_of_int)
  qed
  then show ?thesis
    unfolding base_df_def fr by (intro filter_cong) auto
qed

subsection \<open>Average price by neighbourhood\<close>

lemma argsort_spec_indices:
  assumes "argsort_spec argsort"
  shows "set (argsort keys) = {..<length keys}"
proof -
  from assms have "mset (argsort keys) = mset [0..<length keys]"
    by (simp add: argsort_spec_def)
  then have "set (argsort keys) = set [0..<length keys]"
    by (rule mset_eq_setD)
  then show ?thesis by (simp add: lessThan_atLeast0)
qed

lemma argsort_spec_permutes:
  assumes "argsort_spec argsort"
  shows "mset (map (\<lambda>i. xs ! i) (argsort (map f xs))) = mset xs"
proof -
  from assms have "mset (argsort (map f xs)) = mset [0..<length xs]"
    by (simp add: argsort_spec_def)
  then have "mset (map (\<lambda>i. xs ! i) (argsort (map f xs))) = mset (map (\<lambda>i. xs ! i) [0..<length xs])"
    by (simp only: mset_map)
  then show ?thesis by (simp only: map_nth)
qed

lemma argsort_spec_sorted:
  assumes "argsort_spec argsort"
  shows "sorted (map (\<lambda>i. f (xs ! i)) (argsort (map f xs)))"
proof -
  from assms have s: "sorted (map (\<lambda>i. map f xs ! i) (argsort (map f xs)))"
    by (simp add: argsort_spec_def)
  have "map (\<lambda>i. map f xs ! i) (argsort (map f xs)) = map (\<lambda>i. f (xs ! i)) (argsort (map f xs))"
    using argsort_spec_indices [OF assms, of "map f xs"] by (intro map_cong) auto
  with s show ?thesis by simp
qed

lemma rows_split:
  "image_mset (\<lambda>r. (fst r, Some (snd r))) (mset (non_nan_rows rows)) + mset (nan_rows rows) = mset rows"
  by (induction rows) (auto simp: nan_rows_def split: option.splits)

lemma sort_values_desc_eq:
  "sort_values_desc argsort rows =
     map (\<lambda>r. (fst r, Some (snd r)))
       (rev (map (\<lambda>i. rev (non_nan_rows rows) ! i) (argsort (map snd (rev (non_nan_rows rows))))))
     @ nan_rows rows"
  by (simp add: sort_values_desc_def Let_def rev_map)

lemma mset_sort_values_desc:
  assumes "argsort_spec argsort"
  shows "mset (sort_values_desc argsort rows) = mset rows"
proof -
  have "mset (map (\<lambda>i. rev (non_nan_rows rows) ! i) (argsort (map snd (rev (non_nan_rows rows)))))
          = mset (non_nan_rows rows)"
    using argsort_spec_permutes [OF assms, of "rev (non_nan_rows rows)" snd] by simp
  then have "mset (sort_values_desc argsort rows) =
      image_mset (\<lambda>r. (fst r, Some (snd r))) (mset (non_nan_rows rows)) + mset (nan_rows rows)"
    by (simp add: sort_values_desc_eq)
  then show ?thesis by (simp only: rows_split)
qed

lemma sorted_sort_values_desc:
  assumes "argsort_spec argsort"
  shows "sorted_wrt (\<lambda>a b. mean_ge (snd a) (snd b)) (sort_values_desc argsort rows)"
proof -
  let ?nn = "rev (non_nan_rows rows)"
  let ?p = "argsort (map snd ?nn)"
  have "sorted (map (\<lambda>i. snd (?nn ! i)) ?p)"
    by (rule argsort_spec_sorted [OF assms])
  then have "sorted_wrt (\<lambda>i j. snd (?nn ! i) \<le> snd (?nn ! j)) ?p"
    by (simp add: sorted_map)
  then have "sorted_wrt (\<lambda>a b. snd a \<le> snd b) (map (\<lambda>i. ?nn ! i) ?p)"
    by (simp add: sorted_wrt_map)
  then have "sorted_wrt (\<lambda>a b. snd b \<le> snd a) (rev (map (\<lambda>i. ?nn ! i) ?p))"
    by (simp add: sorted_wrt_rev)
  then have 1: "sorted_wrt (\<lambda>a b. mean_ge (snd a) (snd b))
      (map (\<lambda>r. (fst r, Some (snd r))) (rev (map (\<lambda>i. ?nn ! i) ?p)))"
    by (simp add: sorted_wrt_map mean_ge_def)
  have 2: "sorted_wrt (\<lambda>a b. mean_ge (snd a) (snd b)) (nan_rows rows)"
    by (rule sorted_wrt_mono_rel [of _ "\<lambda>a b. True"]) (auto simp: nan_rows_def mean_ge_def)
  have 3: "\<forall>a\<in>set (map (\<lambda>r. (fst r, Some (snd r))) (rev (map (\<lambda>i. ?nn ! i) ?p))).
             \<forall>b\<in>set (nan_rows rows). mean_ge (snd a) (snd b)"
    by (auto simp: nan_rows_def mean_ge_def)
  from 1 2 3 show ?thesis
    by (simp only: sort_values_desc_eq sorted_wrt_append)
qed

lemma group_keys_distinct: "distinct (group_keys view)"
  by (simp add: group_keys_def)

lemma group_keys_set: "set (group_keys view) = {k. \<exists>r\<in>set view. neighbourhood_cleansed r = Some k}"
  by (force simp: group_keys_def set_present)

lemma stable_argsort_spec: "argsort_spec stable_argsort"
  by (simp add: argsort_spec_def stable_argsort_def)

text \<open>
  Claim C3, as the code has it: for every view and every sort that meets
  \<open>argsort_spec\<close>, \<^verbatim>\<open>neighborhood_avg\<close> has one row per distinct neighbourhood of the
  view that is not NaN, each with the mean price of its group, ordered by mean price
  descending. The order of rows with equal means is the order the sort leaves them in:
  the code names no second sort key.
\<close>

theorem neighborhood_avg_order:
  assumes "argsort_spec argsort"
  shows "distinct (map fst (neighborhood_avg argsort view)) \<and>
         set (map fst (neighborhood_avg argsort view)) =
           {k. \<exists>r\<in>set view. neighbourhood_cleansed r = Some k} \<and>
         (\<forall>row\<in>set (neighborhood_avg argsort view). snd row = group_mean view (fst row)) \<and>
         sorted_wrt (\<lambda>a b. mean_ge (snd a) (snd b)) (neighborhood_avg argsort view)"
proof -
  have m: "mset (neighborhood_avg argsort view) = mset (groupby_mean view)"
    unfolding neighborhood_avg_def by (rule mset_sort_values_desc [OF assms])
  then have "mset (map fst (neighborhood_avg argsort view)) = mset (map fst (groupby_mean view))"
    by (simp only: mset_map)
  also have "map fst (groupby_mean view) = group_keys view"
    by (simp add: groupby_mean_def comp_def)
  finally have k: "mset (map fst (neighborhood_avg argsort view)) = mset (group_keys view)" .
  from k have "distinct (map fst (neighborhood_avg argsort view))"
    using group_keys_distinct mset_eq_imp_distinct_iff by blast
  moreover from k have "set (map fst (neighborhood_avg argsort view)) = set (group_keys view)"
    by (rule mset_eq_setD)
  moreover from m have "set (neighborhood_avg argsort view) = set (groupby_mean view)"
    by (rule mset_eq_setD)
  then have "\<forall>row\<in>set (neighborhood_avg argsort view). snd row = group_mean view (fst row)"
    by (auto simp: groupby_mean_def)
  moreover have "sorted_wrt (\<lambda>a b. mean_ge (snd a) (snd b)) (neighborhood_avg argsort view)"
    unfolding neighborhood_avg_def by (rule sorted_sort_values_desc [OF assms])
  ultimately show ?thesis
    by (simp only: group_keys_set)
qed

theorem neighborhood_avg_order_witness:
  "argsort_spec stable_argsort \<and>
   neighborhood_avg stable_argsort example_view = [(''Mission'', Some 1234.5), (''Castro'', Some 150)] \<and>
   distinct (map fst (neighborhood_avg stable_argsort example_view)) \<and>
   sorted_wrt (\<lambda>a b. mean_ge (snd a) (snd b)) (neighborhood_avg stable_argsort example_view)"
proof -
  have e: "neighborhood_avg stable_argsort example_view = [(''Mission'', Some 1234.5), (''Castro'', Some 150)]"
    by code_simp
  from neighborhood_avg_order [OF stable_argsort_spec, of example_view]
  have "distinct (map fst (neighborhood_avg stable_argsort example_view)) \<and>
        sorted_wrt (\<lambda>a b. mean_ge (snd a) (snd b)) (neighborhood_avg stable_argsort example_view)"
    by blast
  with stable_argsort_spec e show ?thesis
    by blast
qed

text \<open>
  The claim as written adds that equal means are ordered by name ascending. With
  numpy's quicksort the eighteen neighbourhoods of \<open>ties_view\<close>, all of mean price
  100, do not come out in that order: the split of the eighteen positions swaps
  positions with equal keys, and Potrero Hill comes third, before Pacific Heights.
\<close>

theorem neighborhood_avg_tie_counterexample:
  "\<not> sorted_wrt price_desc_name_asc (neighborhood_avg aquicksort ties_view)"
proof -
  have "neighborhood_avg aquicksort ties_view =
          map (\<lambda>k. (k, Some 100))
            [''Bayview'', ''Bernal Heights'', ''Potrero Hill'', ''Pacific Heights'',
             ''Outer Mission'', ''North Beach'', ''Noe Valley'', ''Nob Hill'',
             ''Mission'', ''Marina'', ''Inner Sunset'', ''Inner Richmond'',
             ''Haight Ashbury'', ''Glen Park'', ''Excelsior'', ''Chinatown'',
             ''Castro'', ''Russian Hill'']"
    by code_simp
  moreover have "\<not> price_desc_name_asc (''Potrero Hill'', Some 100) (''Pacific Heights'', Some 100)"
    by code_simp
  ultimately show ?thesis
    by simp
qed

text \<open>The order of the rows there, and the positions the sort returns for eighteen equal keys.\<close>

lemma neighborhood_avg_ties_view:
  "map fst (neighborhood_avg aquicksort ties_view) =
     [''Bayview'', ''Bernal Heights'', ''Potrero Hill'', ''Pacific Heights'',
      ''Outer Mission'', ''North Beach'', ''Noe Valley'', ''Nob Hill'',
      ''Mission'', ''Marina'', ''Inner Sunset'', ''Inner Richmond'',
      ''Haight Ashbury'', ''Glen Park'', ''Excelsior'', ''Chinatown'',
      ''Castro'', ''Russian Hill'']"
  by code_simp

lemma aquicksort_equal_keys:
  "aquicksort (replicate 18 100) = [0, 15, 14, 13, 12, 11, 10, 9, 8, 7, 6, 5, 4, 3, 2, 1, 16, 17]"
  by code_simp

subsection \<open>Step 2\<close>

text \<open>
  Claim C10: \<^verbatim>\<open>filtered_df\<close> is a subsequence of \<^verbatim>\<open>base_df\<close>, so step 2 adds and
  replaces no row, and each of its rows is a row of \<^verbatim>\<open>base_df\<close> that satisfies the
  predicate of step 1 (price within the bounds, superhost flag as selected) and that of
  step 2 (room type and neighbourhood as selected).
\<close>

theorem filtered_df_within_base_df:
  "subseq (filtered_df (base_df df selected_price selected_superhost) selected_room selected_neighborhood)
          (base_df df selected_price selected_superhost) \<and>
   (\<forall>r \<in> set (filtered_df (base_df df selected_price selected_superhost) selected_room selected_neighborhood).
      r \<in> set (base_df df selected_price selected_superhost) \<and>
      price_ge (price r) (fst selected_price) \<and> price_le (price r) (snd selected_price) \<and>
      host_is_superhost r = Some selected_superhost \<and>
      room_type r = Some selected_room \<and> neighbourhood_cleansed r = Some selected_neighborhood)"
proof (intro conjI ballI)
  show "subseq (filtered_df (base_df df selected_price selected_superhost) selected_room selected_neighborhood)
          (base_df df selected_price selected_superhost)"
    by (simp add: filtered_df_def)
qed (simp_all add: filtered_df_def base_df_def)

theorem filtered_df_within_base_df_witness:
  "filtered_df (base_df example_view (100, 1500) ''Yes'') ''Entire home/apt'' ''Castro'' = [example_view ! 1] \<and>
   example_view ! 1 \<in> set (base_df example_view (100, 1500) ''Yes'') \<and>
   price (example_view ! 1) = Some 100 \<and>
   room_type (example_view ! 1) = Some ''Entire home/apt''"
proof -
  have e: "filtered_df (base_df example_view (100, 1500) ''Yes'') ''Entire home/apt'' ''Castro'' = [example_view ! 1]"
    by code_simp
  have f: "price (example_view ! 1) = Some 100" by code_simp
  show ?thesis
    using filtered_df_within_base_df [of example_view "(100, 1500)" "''Yes''" "''Entire home/apt''" "''Castro''"] e f
    by simp
qed

subsection \<open>Step 3\<close>

lemma set_unique: "set (unique xs) = set xs"
  by (simp add: unique_def)

lemma distinct_unique: "distinct (unique xs)"
  by (simp add: unique_def)

lemma id_eq_iff: "id_eq cell selected_id \<longleftrightarrow> cell = selected_id \<and> selected_id \<noteq> None"
  by (cases cell) (auto simp: id_eq_def)

lemma selected_row_present:
  assumes "Some s \<in> listing_id ` set view"
  shows "\<exists>row. selected_row view (Some s) = Inr row \<and> listing_id row = Some s \<and> row \<in> set view"
proof (cases "filter (\<lambda>r. id_eq (listing_id r) (Some s)) view")
  case Nil
  then have "\<forall>r\<in>set view. listing_id r \<noteq> Some s"
    by (simp add: filter_empty_conv id_eq_iff)
  with assms show ?thesis by force
next
  case (Cons r rs)
  then have "r \<in> set (filter (\<lambda>r. id_eq (listing_id r) (Some s)) view)"
    by simp
  then have "listing_id r = Some s \<and> r \<in> set view"
    by (simp add: id_eq_iff)
  with Cons show ?thesis
    by (simp add: selected_row_def)
qed

lemma selected_row_no_match:
  assumes "\<forall>r\<in>set view. \<not> id_eq (listing_id r) selected_id"
  shows "selected_row view selected_id = Inl IndexError"
proof -
  have "filter (\<lambda>r. id_eq (listing_id r) selected_id) view = []"
    using assms by (simp add: filter_empty_conv)
  then show ?thesis
    by (simp add: selected_row_def)
qed

lemma selected_row_Inr:
  assumes "selected_row view selected_id = Inr row"
  shows "listing_id row = selected_id \<and> row \<in> set view"
proof (cases "filter (\<lambda>r. id_eq (listing_id r) selected_id) view")
  case Nil
  with assms show ?thesis by (simp add: selected_row_def)
next
  case (Cons r rs)
  with assms have "r = row" by (simp add: selected_row_def)
  moreover from Cons have "r \<in> set (filter (\<lambda>r. id_eq (listing_id r) selected_id) view)"
    by simp
  ultimately show ?thesis by (simp add: id_eq_iff)
qed

text \<open>
  When the step raises: only on a view with rows none of which has the selected id. For
  an id that the step can be run with, that is the NaN id alone.
\<close>

lemma step3_raises_iff:
  "step3 view selected_id = Inl e \<longleftrightarrow>
     e = IndexError \<and> view \<noteq> [] \<and> (\<forall>r\<in>set view. \<not> id_eq (listing_id r) selected_id)"
proof (cases "filter (\<lambda>r. id_eq (listing_id r) selected_id) view")
  case Nil
  then show ?thesis
    by (auto simp: step3_def selected_row_def filter_empty_conv)
next
  case (Cons r rs)
  then have "r \<in> set (filter (\<lambda>r. id_eq (listing_id r) selected_id) view)"
    by simp
  then have "r \<in> set view \<and> id_eq (listing_id r) selected_id"
    by simp
  with Cons show ?thesis
    by (auto simp: step3_def selected_row_def)
qed

lemma step3_raises_on_nan_only:
  assumes "selectable view selected_id" and "step3 view selected_id = Inl e"
  shows "selected_id = None"
proof (rule ccontr)
  assume "selected_id \<noteq> None"
  then obtain s where s: "selected_id = Some s" by auto
  from assms(2) have ne: "view \<noteq> []" and no: "\<forall>r\<in>set view. \<not> id_eq (listing_id r) selected_id"
    by (simp_all add: step3_raises_iff)
  from assms(1) ne s have "Some s \<in> listing_id ` set view"
    by (simp add: selectable_def available_ids_def set_unique)
  with no s show False
    by (auto simp: id_eq_iff)
qed

text \<open>
  The round trip for the ids that are strings, and the frames on which every id is one:
  those loaded by a pandas before version 3.
\<close>

lemma selected_row_roundtrip:
  assumes "Some s \<in> set (available_ids view)"
  shows "\<exists>row. selected_row view (Some s) = Inr row \<and> listing_id row = Some s \<and> row \<in> set view"
proof -
  from assms have "Some s \<in> listing_id ` set view"
    by (simp add: available_ids_def set_unique)
  then show ?thesis by (rule selected_row_present)
qed

lemma load_df_ids_before_pandas3:
  assumes "load_df True to_float raw = Inr df" and "l \<in> set df"
  shows "listing_id l \<noteq> None"
proof -
  from assms obtain ls where ls: "preprocess True to_float raw = Inr ls" and df: "df = drop_incomplete ls"
    by (auto simp: load_df_def split: sum.splits)
  from assms(2) df obtain l0 where l0: "l0 \<in> set ls" "l = add_avg_review_score l0"
    using drop_incomplete_rows by blast
  from preprocess_Inr_rows [OF ls l0(1)] obtain r p where "l0 = preprocess_row True r p"
    by blast
  with l0(2) show ?thesis
    by (simp add: add_avg_review_score_def preprocess_row_def astype_str_def split: option.splits)
qed

text \<open>
  Claim C9: for every view and every identifier among the distinct identifiers of the
  view, the selection succeeds and returns a record of the view with that identifier.
  On pandas 3 a listing with an empty \<^verbatim>\<open>id\<close> field keeps a NaN id through line 10, and
  no \<^verbatim>\<open>dropna\<close> removes it. For the file of two listings of \<open>missing_id_raw\<close>, the
  first without an id, the frame reaches step 3 whole, line 134 offers the NaN as the first option, the
  comparison of line 137 is False on every row, and \<^verbatim>\<open>.iloc[0]\<close> raises IndexError.
\<close>

theorem selected_row_nan_id:
  "load_df False decimal_float missing_id_raw = Inr missing_id_view \<and>
   price_min_max missing_id_view = Inr (100, 200) \<and>
   base_df missing_id_view (100, 200) ''Yes'' = missing_id_view \<and>
   filtered_df missing_id_view ''Entire home/apt'' ''Mission'' = missing_id_view \<and>
   available_ids missing_id_view = [None, Some ''2''] \<and>
   selected_row missing_id_view None = Inl IndexError \<and>
   step3 missing_id_view None = Inl IndexError"
  by code_simp



text \<open>
  Claim C8: for every successful selection the review breakdown has exactly six rows, in
  the order Rating, Accuracy, Cleanliness, Check-in, Communication, Location, each with
  the score of the selected record's field of that category; the selected record is the
  record of the view with the selected identifier.
\<close>

theorem review_breakdown:
  assumes "step3 view selected_id = Inr (Shown row scores info)"
  shows "scores =
           [(''Rating'', review_scores_rating row),
            (''Accuracy'', review_scores_accuracy row),
            (''Cleanliness'', review_scores_cleanliness row),
            (''Check-in'', review_scores_checkin row),
            (''Communication'', review_scores_communication row),
            (''Location'', review_scores_location row)] \<and>
         length scores = 6 \<and> listing_id row = selected_id \<and> row \<in> set view"
proof -
  from assms have sel: "selected_row view selected_id = Inr row" and sc: "scores = review_scores row"
    by (auto simp: step3_def split: if_splits sum.splits)
  from selected_row_Inr [OF sel] sc show ?thesis
    by (simp add: review_scores_def)
qed

theorem review_breakdown_witness:
  "step3 example_view (Some ''12345'') =
     Inr (Shown example_row (review_scores example_row) (host_info example_row)) \<and>
   review_scores example_row =
     [(''Rating'', Some 4), (''Accuracy'', Some 5), (''Cleanliness'', Some 3),
      (''Check-in'', Some 5), (''Communication'', Some 4), (''Location'', Some 5)]"
proof -
  have e: "step3 example_view (Some ''12345'') =
     Inr (Shown example_row (review_scores example_row) (host_info example_row))"
    by code_simp
  show ?thesis
    using review_breakdown [OF e] e by (simp add: example_row_def)
qed

text \<open>
  Claim C5: a host field that is absent on the selected record is shown as the marker
  Not Available. \<^verbatim>\<open>Series.get\<close> returns its default only for a column that the frame
  does not have; a NaN cell of an existing column is returned as it is and printed as
  nan. A listing with no acceptance rate passes the cleaning, and its third line reads
  nan.
\<close>

theorem host_info_nan_cell:
  "load_df nan_to_str decimal_float [example_raw\<lparr>raw_host_acceptance_rate := Cell None\<rparr>]
     = Inr [example_row\<lparr>host_acceptance_rate := Cell None\<rparr>] \<and>
   step3 [example_row\<lparr>host_acceptance_rate := Cell None\<rparr>] (Some ''12345'')
     = Inr (Shown (example_row\<lparr>host_acceptance_rate := Cell None\<rparr>)
             [(''Rating'', Some 4), (''Accuracy'', Some 5), (''Cleanliness'', Some 3),
              (''Check-in'', Some 5), (''Communication'', Some 4), (''Location'', Some 5)]
             [''**Host Name:** Ana'', ''**Host Response Rate:** 100%'',
              ''**Host Acceptance Rate:** nan''])"
  by code_simp


end
